theory Spec2Isabelle
  imports Complex_Main
begin

section \<open>Data model (app.py, lines 21-75)\<close>

text \<open>
  Every table of \<^verbatim>\<open>app.py\<close> is a list of rows in insertion order, every model class a
  record. Primary keys are natural numbers, timestamps are natural numbers handed in by the
  environment.

  The \<^verbatim>\<open>db.Float\<close> columns hold double-precision numbers, and so do the numbers of a
  request once the JSON parser has read them. A finite double is modelled by the real number
  it denotes. The routes add and subtract such numbers with the float arithmetic of the
  host: the exact result, rounded to the nearest double, a tie going to the double with the
  even significand (\<open>binary64\<close> below). Doubles are compared as the reals they denote.
  Infinities and NaN, and with them results beyond the largest finite double, have no
  counterpart in the reals and are not represented.
\<close>

text \<open>Rounding to the nearest integer, a tie going to the even one.\<close>

definition round_half_even :: "real \<Rightarrow> int" where
  "round_half_even x =
     (let n = \<lfloor>x\<rfloor>; r = x - of_int n
      in if r < 1 / 2 then n
         else if 1 / 2 < r then n + 1
         else if even n then n else n + 1)"

text \<open>
  Rounding to the nearest double: 53 significant bits, the exponent of a normal number
  being \<open>\<lfloor>log 2 \<bar>x\<bar>\<rfloor>\<close> and that of the subnormal numbers \<open>- 1022\<close>; the doubles with exponent
  \<open>ex\<close> are the integer multiples of \<open>2 powr (ex - 52)\<close>.
\<close>

definition binary64 :: "real \<Rightarrow> real" where
  "binary64 x =
     (if x = 0 then 0
      else let ex = max \<lfloor>log 2 \<bar>x\<bar>\<rfloor> (- 1022);
               ulp = 2 powr of_int (ex - 52)
           in of_int (round_half_even (x / ulp)) * ulp)"


record Material =
  material_id :: nat
  material_name :: string
  material_quantity :: real
  material_type :: string
  material_colour :: "string option"
  material_supplier :: "string option"
  total_quantity :: real

record MaterialRoll =
  roll_id :: nat
  roll_material_id :: nat
  roll_quantity :: real
  roll_date_added :: nat

record Customer =
  customer_id :: nat
  customer_name :: string
  customer_contact :: string
  debt :: real
  customer_location :: "string option"

record Sale =
  sale_id :: nat
  sale_material_id :: nat
  sale_customer_id :: "nat option"
  quantity_sold :: real
  price :: real
  sale_date :: nat

text \<open>The value handed to \<^verbatim>\<open>json.dumps\<close>; the serialisation itself is kept abstract.\<close>

datatype json =
    JNull
  | JNum real
  | JStr string
  | JDate nat
  | JList "json list"
  | JDict "(string \<times> json) list"

record ActivityLog =
  log_id :: nat
  action_type :: string
  table_name :: string
  record_id :: nat
  changes :: json
  log_timestamp :: nat

record db =
  materials :: "Material list"
  rolls :: "MaterialRoll list"
  customers :: "Customer list"
  sales :: "Sale list"
  logs :: "ActivityLog list"

definition empty_db :: db where
  "empty_db = \<lparr>materials = [], rolls = [], customers = [], sales = [], logs = []\<rparr>"

section \<open>Environment, errors and replies\<close>

text \<open>
  The storage engine is an external collaborator. Each route calls
  \<^verbatim>\<open>db.session.commit()\<close> once for its own changes and \<^verbatim>\<open>log_activity\<close> commits once
  more for the audit row. Whether a commit is accepted by the storage engine is not decided
  by \<^verbatim>\<open>app.py\<close>, so both outcomes are inputs of the model. A rejected commit raises, the
  request ends with an error and the pending changes of the session are dropped.
\<close>

record env =
  now :: nat
  commit_ok :: bool
  log_commit_ok :: bool

definition all_ok :: "nat \<Rightarrow> env" where
  "all_ok t = \<lparr>now = t, commit_ok = True, log_commit_ok = True\<rparr>"

datatype error =
    DuplicateMaterial
  | MaterialNotFound
  | RollNotFound
  | CustomerNotFound
  | SaleNotFound
  | InsufficientStock
  | StorageFailure
  | IntegrityError
  | AttributeError

datatype reply = Done | Created nat

type_synonym outcome = "(error + reply) \<times> db"

section \<open>Request bodies\<close>

record material_req =
  mr_name :: string
  mr_type :: string
  mr_colour :: "string option"
  mr_supplier :: "string option"

record rolls_req =
  rr_name :: string
  rr_type :: string
  rr_quantities :: "real list"

record customer_req =
  cr_name :: string
  cr_contact :: string

record customer_edit =
  ce_name :: "string option"
  ce_contact :: "string option"

record sale_req =
  sr_material_id :: nat
  sr_customer_id :: "nat option"
  sr_quantity_sold :: real
  sr_price :: real
  sr_amount_due :: "real option"

record sale_edit =
  se_quantity_sold :: "real option"
  se_price :: "real option"

section \<open>Storage helpers\<close>

text \<open>An integer primary key of a new row is one more than the largest key in the table.\<close>

definition next_id :: "nat list \<Rightarrow> nat" where
  "next_id ids = Suc (fold max ids 0)"

text \<open>\<^verbatim>\<open>Query.get(id)\<close>: the row with that primary key, or \<^verbatim>\<open>None\<close>.\<close>

definition get_material :: "db \<Rightarrow> nat \<Rightarrow> Material option" where
  "get_material d i = find (\<lambda>m. material_id m = i) (materials d)"

definition get_roll :: "db \<Rightarrow> nat \<Rightarrow> MaterialRoll option" where
  "get_roll d i = find (\<lambda>r. roll_id r = i) (rolls d)"

definition get_customer :: "db \<Rightarrow> nat \<Rightarrow> Customer option" where
  "get_customer d i = find (\<lambda>c. customer_id c = i) (customers d)"

definition get_sale :: "db \<Rightarrow> nat \<Rightarrow> Sale option" where
  "get_sale d i = find (\<lambda>s. sale_id s = i) (sales d)"

text \<open>Writing back an attribute change of the row with primary key \<open>i\<close>.\<close>

definition update_material :: "nat \<Rightarrow> (Material \<Rightarrow> Material) \<Rightarrow> Material list \<Rightarrow> Material list" where
  "update_material i f ms = map (\<lambda>m. if material_id m = i then f m else m) ms"

definition update_customer :: "nat \<Rightarrow> (Customer \<Rightarrow> Customer) \<Rightarrow> Customer list \<Rightarrow> Customer list" where
  "update_customer i f cs = map (\<lambda>c. if customer_id c = i then f c else c) cs"

definition update_sale :: "nat \<Rightarrow> (Sale \<Rightarrow> Sale) \<Rightarrow> Sale list \<Rightarrow> Sale list" where
  "update_sale i f ss = map (\<lambda>s. if sale_id s = i then f s else s) ss"

definition update_roll_row :: "nat \<Rightarrow> (MaterialRoll \<Rightarrow> MaterialRoll) \<Rightarrow> MaterialRoll list \<Rightarrow> MaterialRoll list" where
  "update_roll_row i f rs = map (\<lambda>r. if roll_id r = i then f r else r) rs"

definition jid :: "nat \<Rightarrow> json" where
  "jid n = JNum (real n)"

definition jopt_id :: "nat option \<Rightarrow> json" where
  "jopt_id x = (case x of None \<Rightarrow> JNull | Some n \<Rightarrow> jid n)"

definition jopt_str :: "string option \<Rightarrow> json" where
  "jopt_str x = (case x of None \<Rightarrow> JNull | Some s \<Rightarrow> JStr s)"

section \<open>The audit log (app.py, lines 78-86)\<close>

text \<open>
  \<^verbatim>\<open>log_activity\<close> adds one row to the session and commits. It runs after the route's own
  commit, on the state that commit left.
\<close>

definition log_activity :: "env \<Rightarrow> string \<Rightarrow> string \<Rightarrow> nat \<Rightarrow> json \<Rightarrow> db \<Rightarrow> error + db" where
  "log_activity e action tbl rid ch d =
     (let new_log = \<lparr>log_id = next_id (map log_id (logs d)), action_type = action,
                      table_name = tbl, record_id = rid, changes = ch,
                      log_timestamp = now e\<rparr>
      in if log_commit_ok e then Inr (d\<lparr>logs := logs d @ [new_log]\<rparr>)
         else Inl StorageFailure)"

text \<open>
  The tail shared by every route: the route's commit of the pending state \<open>d'\<close> (against
  the stored state \<open>d\<close>), then \<^verbatim>\<open>log_activity\<close>, then the reply.
\<close>

definition commit_and_log ::
  "env \<Rightarrow> db \<Rightarrow> db \<Rightarrow> string \<Rightarrow> string \<Rightarrow> nat \<Rightarrow> json \<Rightarrow> reply \<Rightarrow> outcome" where
  "commit_and_log e d d' action tbl rid ch r =
     (if \<not> commit_ok e then (Inl StorageFailure, d)
      else case log_activity e action tbl rid ch d' of
             Inl err \<Rightarrow> (Inl err, d')
           | Inr d'' \<Rightarrow> (Inr r, d''))"

section \<open>Stock ledger routes\<close>

text \<open>\<^verbatim>\<open>add_material\<close> (lines 90-111). The columns \<^verbatim>\<open>quantity\<close> and \<^verbatim>\<open>total_quantity\<close> are
  not set by the route and take their column default 0.\<close>

definition material_req_json :: "material_req \<Rightarrow> json" where
  "material_req_json data =
     JDict ([(''name'', JStr (mr_name data)), (''type'', JStr (mr_type data))]
            @ (case mr_colour data of None \<Rightarrow> [] | Some c \<Rightarrow> [(''colour'', JStr c)])
            @ [(''supplier'', jopt_str (mr_supplier data))])"

definition add_material :: "env \<Rightarrow> material_req \<Rightarrow> db \<Rightarrow> outcome" where
  "add_material e data d =
     (let existing_material =
            find (\<lambda>m. material_name m = mr_name data \<and> material_type m = mr_type data
                       \<and> material_supplier m = mr_supplier data) (materials d)
      in case existing_material of
           Some _ \<Rightarrow> (Inl DuplicateMaterial, d)
         | None \<Rightarrow>
             let new_material =
                   \<lparr>material_id = next_id (map material_id (materials d)),
                    material_name = mr_name data, material_quantity = 0,
                    material_type = mr_type data, material_colour = mr_colour data,
                    material_supplier = mr_supplier data, total_quantity = 0\<rparr>;
                 d' = d\<lparr>materials := materials d @ [new_material]\<rparr>
             in commit_and_log e d d' ''ADD'' ''materials'' (material_id new_material)
                  (material_req_json data) (Created (material_id new_material)))"

text \<open>\<^verbatim>\<open>add_rolls\<close> (lines 115-132). The new rows get consecutive primary keys.\<close>

fun new_rolls :: "nat \<Rightarrow> nat \<Rightarrow> nat \<Rightarrow> real list \<Rightarrow> MaterialRoll list" where
  "new_rolls t mid k [] = []"
| "new_rolls t mid k (q # qs) =
     \<lparr>roll_id = k, roll_material_id = mid, roll_quantity = q, roll_date_added = t\<rparr>
       # new_rolls t mid (Suc k) qs"

definition add_rolls :: "env \<Rightarrow> rolls_req \<Rightarrow> db \<Rightarrow> outcome" where
  "add_rolls e data d =
     (let material =
            find (\<lambda>m. material_name m = rr_name data \<and> material_type m = rr_type data)
                 (materials d)
      in case material of
           None \<Rightarrow> (Inl MaterialNotFound, d)
         | Some m \<Rightarrow>
             let roll_quantities = rr_quantities data;
                 roll_entries = new_rolls (now e) (material_id m)
                                  (next_id (map roll_id (rolls d))) roll_quantities;
                 d' = d\<lparr>rolls := rolls d @ roll_entries\<rparr>
             in commit_and_log e d d' ''ADD'' ''material_rolls'' (material_id m)
                  (JDict [(''added_rolls'', JList (map JNum roll_quantities))])
                  (Created (material_id m)))"

text \<open>
  \<^verbatim>\<open>delete_material\<close> (lines 173-187). \<^verbatim>\<open>Material.sales\<close>, the backref of line 55, has no
  delete cascade, so the flush of \<^verbatim>\<open>db.session.delete(material)\<close> sets \<^verbatim>\<open>material_id\<close> of
  every sale of the material to NULL. That column is \<^verbatim>\<open>nullable=False\<close> (line 48): when a
  sale references the material, the commit of line 183 raises an integrity error and the
  transaction, the deletion of the rolls included, is dropped. The rolls of the material
  are deleted by the query of line 180 before that flush, so \<^verbatim>\<open>Material.rolls\<close> finds none.
\<close>

definition delete_material :: "env \<Rightarrow> nat \<Rightarrow> db \<Rightarrow> outcome" where
  "delete_material e mid d =
     (case get_material d mid of
        None \<Rightarrow> (Inl MaterialNotFound, d)
      | Some material \<Rightarrow>
          if list_ex (\<lambda>s. sale_material_id s = material_id material) (sales d)
          then (Inl IntegrityError, d)
          else
            let d' = d\<lparr>rolls := filter (\<lambda>r. roll_material_id r \<noteq> material_id material)
                                   (rolls d),
                       materials := filter (\<lambda>m. material_id m \<noteq> material_id material)
                                       (materials d)\<rparr>
            in commit_and_log e d d' ''DELETE'' ''materials'' mid
                 (JDict [(''deleted_material'', JStr (material_name material))]) Done)"

text \<open>\<^verbatim>\<open>delete_roll\<close> (lines 191-204).\<close>

definition delete_roll :: "env \<Rightarrow> nat \<Rightarrow> db \<Rightarrow> outcome" where
  "delete_roll e rid d =
     (case get_roll d rid of
        None \<Rightarrow> (Inl RollNotFound, d)
      | Some roll \<Rightarrow>
          let deleted_data = JDict [(''material_id'', jid (roll_material_id roll)),
                                    (''quantity'', JNum (roll_quantity roll))];
              d' = d\<lparr>rolls := filter (\<lambda>r. roll_id r \<noteq> roll_id roll) (rolls d)\<rparr>
          in commit_and_log e d d' ''DELETE'' ''material_rolls'' rid
               (JDict [(''deleted_roll'', deleted_data)]) Done)"

text \<open>\<^verbatim>\<open>update_roll\<close> (lines 208-223).\<close>

definition update_roll :: "env \<Rightarrow> nat \<Rightarrow> real \<Rightarrow> db \<Rightarrow> outcome" where
  "update_roll e rid quantity d =
     (case get_roll d rid of
        None \<Rightarrow> (Inl RollNotFound, d)
      | Some roll \<Rightarrow>
          let old_quantity = roll_quantity roll;
              d' = d\<lparr>rolls := update_roll_row rid (\<lambda>r. r\<lparr>roll_quantity := quantity\<rparr>) (rolls d)\<rparr>
          in commit_and_log e d d' ''UPDATE'' ''material_rolls'' rid
               (JDict [(''before'', JDict [(''quantity'', JNum old_quantity)]),
                       (''after'', JDict [(''quantity'', JNum quantity)])]) Done)"

section \<open>Customer routes\<close>

text \<open>\<^verbatim>\<open>add_customer\<close> (lines 234-243).\<close>

definition add_customer :: "env \<Rightarrow> customer_req \<Rightarrow> db \<Rightarrow> outcome" where
  "add_customer e data d =
     (let new_customer =
            \<lparr>customer_id = next_id (map customer_id (customers d)),
             customer_name = cr_name data, customer_contact = cr_contact data,
             debt = 0, customer_location = None\<rparr>;
          d' = d\<lparr>customers := customers d @ [new_customer]\<rparr>
      in commit_and_log e d d' ''ADD'' ''customers'' (customer_id new_customer)
           (JDict [(''name'', JStr (cr_name data)), (''contact'', JStr (cr_contact data))])
           (Created (customer_id new_customer)))"

text \<open>\<^verbatim>\<open>edit_customer\<close> (lines 247-262).\<close>

definition customer_edit_json :: "customer_edit \<Rightarrow> json" where
  "customer_edit_json data =
     JDict ((case ce_name data of None \<Rightarrow> [] | Some n \<Rightarrow> [(''name'', JStr n)])
            @ (case ce_contact data of None \<Rightarrow> [] | Some c \<Rightarrow> [(''contact'', JStr c)]))"

definition edit_customer :: "env \<Rightarrow> nat \<Rightarrow> customer_edit \<Rightarrow> db \<Rightarrow> outcome" where
  "edit_customer e cid data d =
     (case get_customer d cid of
        None \<Rightarrow> (Inl CustomerNotFound, d)
      | Some customer \<Rightarrow>
          let old_data = JDict [(''name'', JStr (customer_name customer)),
                                (''contact'', JStr (customer_contact customer)),
                                (''debt'', JNum (debt customer))];
              new_name = (case ce_name data of None \<Rightarrow> customer_name customer | Some n \<Rightarrow> n);
              new_contact = (case ce_contact data of None \<Rightarrow> customer_contact customer
                                                    | Some c \<Rightarrow> c);
              d' = d\<lparr>customers := update_customer cid
                          (\<lambda>c. c\<lparr>customer_name := new_name, customer_contact := new_contact\<rparr>)
                          (customers d)\<rparr>
          in commit_and_log e d d' ''UPDATE'' ''customers'' (customer_id customer)
               (JDict [(''before'', old_data), (''after'', customer_edit_json data)]) Done)"

text \<open>
  \<^verbatim>\<open>delete_customer\<close> (lines 266-278). \<^verbatim>\<open>Customer.purchases\<close>, the backref of line 56, has
  no delete cascade either: the flush sets \<^verbatim>\<open>customer_id\<close> of every sale of the customer to
  NULL, which that column allows (line 49).
\<close>

definition delete_customer :: "env \<Rightarrow> nat \<Rightarrow> db \<Rightarrow> outcome" where
  "delete_customer e cid d =
     (case get_customer d cid of
        None \<Rightarrow> (Inl CustomerNotFound, d)
      | Some customer \<Rightarrow>
          let deleted_data = JDict [(''name'', JStr (customer_name customer)),
                                    (''contact'', JStr (customer_contact customer))];
              d' = d\<lparr>customers := filter (\<lambda>c. customer_id c \<noteq> customer_id customer)
                                        (customers d),
                     sales := map (\<lambda>s. if sale_customer_id s = Some (customer_id customer)
                                         then s\<lparr>sale_customer_id := None\<rparr> else s)
                                  (sales d)\<rparr>
          in commit_and_log e d d' ''DELETE'' ''customers'' cid
               (JDict [(''deleted_customer'', deleted_data)]) Done)"

section \<open>Sales ledger routes\<close>

text \<open>\<^verbatim>\<open>add_sale\<close> (lines 283-321). \<^verbatim>\<open>Customer.query.get\<close> of a null key is \<^verbatim>\<open>None\<close>.\<close>

definition add_sale :: "env \<Rightarrow> sale_req \<Rightarrow> db \<Rightarrow> outcome" where
  "add_sale e data d =
     (let material = get_material d (sr_material_id data);
          customer = (case sr_customer_id data of None \<Rightarrow> None | Some c \<Rightarrow> get_customer d c)
      in case material of
           None \<Rightarrow> (Inl MaterialNotFound, d)
         | Some m \<Rightarrow>
             if total_quantity m < sr_quantity_sold data then (Inl InsufficientStock, d)
             else
               let ms = update_material (material_id m)
                          (\<lambda>x. x\<lparr>total_quantity :=
                                   binary64 (total_quantity x - sr_quantity_sold data)\<rparr>)
                          (materials d);
                   new_sale = \<lparr>sale_id = next_id (map sale_id (sales d)),
                               sale_material_id = sr_material_id data,
                               sale_customer_id = sr_customer_id data,
                               quantity_sold = sr_quantity_sold data,
                               price = sr_price data, sale_date = now e\<rparr>;
                   cs = (case (customer, sr_amount_due data) of
                           (Some c, Some due) \<Rightarrow>
                             update_customer (customer_id c)
                               (\<lambda>x. x\<lparr>debt := binary64 (debt x + due)\<rparr>) (customers d)
                         | _ \<Rightarrow> customers d);
                   d' = d\<lparr>materials := ms, sales := sales d @ [new_sale], customers := cs\<rparr>
               in commit_and_log e d d' ''SALE'' ''sales'' (sale_id new_sale)
                    (JDict [(''material_id'', jid (sr_material_id data)),
                            (''customer_id'', jopt_id (sr_customer_id data)),
                            (''quantity_sold'', JNum (sr_quantity_sold data)),
                            (''price'', JNum (sr_price data))]) Done)"

text \<open>\<^verbatim>\<open>edit_sale\<close> (lines 343-364). \<^verbatim>\<open>sale.material\<close> is the row the foreign key points to;
  when that row is gone it is \<^verbatim>\<open>None\<close> and the attribute access on it raises.\<close>

definition sale_edit_json :: "sale_edit \<Rightarrow> json" where
  "sale_edit_json data =
     JDict ((case se_quantity_sold data of None \<Rightarrow> [] | Some q \<Rightarrow> [(''quantity_sold'', JNum q)])
            @ (case se_price data of None \<Rightarrow> [] | Some p \<Rightarrow> [(''price'', JNum p)]))"

definition edit_sale :: "env \<Rightarrow> nat \<Rightarrow> sale_edit \<Rightarrow> db \<Rightarrow> outcome" where
  "edit_sale e sid data d =
     (case get_sale d sid of
        None \<Rightarrow> (Inl SaleNotFound, d)
      | Some sale \<Rightarrow>
          let old_data = JDict [(''quantity_sold'', JNum (quantity_sold sale)),
                                (''price'', JNum (price sale))];
              old_quantity = quantity_sold sale;
              new_quantity = (case se_quantity_sold data of None \<Rightarrow> quantity_sold sale
                                                          | Some q \<Rightarrow> q);
              new_price = (case se_price data of None \<Rightarrow> price sale | Some p \<Rightarrow> p)
          in case get_material d (sale_material_id sale) of
               None \<Rightarrow> (Inl AttributeError, d)
             | Some material \<Rightarrow>
                 let ss = update_sale sid
                            (\<lambda>s. s\<lparr>quantity_sold := new_quantity, price := new_price\<rparr>) (sales d);
                     ms = update_material (material_id material)
                            (\<lambda>x. x\<lparr>total_quantity :=
                                     binary64 (binary64 (total_quantity x + old_quantity)
                                               - new_quantity)\<rparr>)
                            (materials d);
                     d' = d\<lparr>sales := ss, materials := ms\<rparr>
                 in commit_and_log e d d' ''UPDATE'' ''sales'' (sale_id sale)
                      (JDict [(''before'', old_data), (''after'', sale_edit_json data)]) Done)"

text \<open>\<^verbatim>\<open>delete_sale\<close> (lines 369-388).\<close>

definition delete_sale :: "env \<Rightarrow> nat \<Rightarrow> db \<Rightarrow> outcome" where
  "delete_sale e sid d =
     (case get_sale d sid of
        None \<Rightarrow> (Inl SaleNotFound, d)
      | Some sale \<Rightarrow>
          let deleted_data = JDict [(''material_id'', jid (sale_material_id sale)),
                                    (''customer_id'', jopt_id (sale_customer_id sale)),
                                    (''quantity_sold'', JNum (quantity_sold sale)),
                                    (''price'', JNum (price sale)),
                                    (''date'', JDate (sale_date sale))]
          in case get_material d (sale_material_id sale) of
               None \<Rightarrow> (Inl AttributeError, d)
             | Some material \<Rightarrow>
                 let ms = update_material (material_id material)
                            (\<lambda>x. x\<lparr>total_quantity :=
                                     binary64 (total_quantity x + quantity_sold sale)\<rparr>)
                            (materials d);
                     d' = d\<lparr>materials := ms,
                            sales := filter (\<lambda>s. sale_id s \<noteq> sale_id sale) (sales d)\<rparr>
                 in commit_and_log e d d' ''DELETE'' ''sales'' sid
                      (JDict [(''deleted_sale'', deleted_data)]) Done)"

section \<open>The command interface\<close>

datatype command =
    AddMaterial material_req
  | AddRolls rolls_req
  | DeleteMaterial nat
  | DeleteRoll nat
  | UpdateRoll nat real
  | AddCustomer customer_req
  | EditCustomer nat customer_edit
  | DeleteCustomer nat
  | AddSale sale_req
  | EditSale nat sale_edit
  | DeleteSale nat

fun exec :: "env \<Rightarrow> command \<Rightarrow> db \<Rightarrow> outcome" where
  "exec e (AddMaterial data) d = add_material e data d"
| "exec e (AddRolls data) d = add_rolls e data d"
| "exec e (DeleteMaterial i) d = delete_material e i d"
| "exec e (DeleteRoll i) d = delete_roll e i d"
| "exec e (UpdateRoll i q) d = update_roll e i q d"
| "exec e (AddCustomer data) d = add_customer e data d"
| "exec e (EditCustomer i data) d = edit_customer e i data d"
| "exec e (DeleteCustomer i) d = delete_customer e i d"
| "exec e (AddSale data) d = add_sale e data d"
| "exec e (EditSale i data) d = edit_sale e i data d"
| "exec e (DeleteSale i) d = delete_sale e i d"

section \<open>Observations and composite runs\<close>

text \<open>The stock counter of a material and the debt of a customer, when the row exists.\<close>

definition stock_of :: "db \<Rightarrow> nat \<Rightarrow> real option" where
  "stock_of d i = map_option total_quantity (get_material d i)"

definition debt_of :: "db \<Rightarrow> nat \<Rightarrow> real option" where
  "debt_of d i = map_option debt (get_customer d i)"





text \<open>The amount a command asks to add to the debt of customer \<open>c\<close>, if any.\<close>

fun sale_debit :: "command \<Rightarrow> nat \<Rightarrow> real option" where
  "sale_debit (AddSale data) c = (if sr_customer_id data = Some c then sr_amount_due data else None)"
| "sale_debit _ c = None"

fun is_add_customer :: "command \<Rightarrow> bool" where
  "is_add_customer (AddCustomer _) = True"
| "is_add_customer _ = False"






section \<open>Example states and requests\<close>

definition silk :: Material where
  "silk = \<lparr>material_id = 1, material_name = ''silk'', material_quantity = 0,
           material_type = ''enli'', material_colour = None,
           material_supplier = Some ''acme'', total_quantity = 100\<rparr>"

definition wool :: Material where
  "wool = \<lparr>material_id = 2, material_name = ''wool'', material_quantity = 0,
           material_type = ''ensiz'', material_colour = Some ''red'',
           material_supplier = Some ''acme'', total_quantity = 0\<rparr>"

definition ann :: Customer where
  "ann = \<lparr>customer_id = 1, customer_name = ''ann'', customer_contact = ''555'',
          debt = 0, customer_location = None\<rparr>"

definition stock_db :: db where
  "stock_db = \<lparr>materials = [silk, wool], rolls = [], customers = [ann], sales = [], logs = []\<rparr>"

definition sale1 :: Sale where
  "sale1 = \<lparr>sale_id = 1, sale_material_id = 1, sale_customer_id = None, quantity_sold = 30,
            price = 10, sale_date = 5\<rparr>"

text \<open>The example state after 30 units of silk were sold.\<close>

definition sold_db :: db where
  "sold_db = \<lparr>materials = [silk\<lparr>total_quantity := 70\<rparr>, wool], rolls = [],
              customers = [ann], sales = [sale1], logs = []\<rparr>"


text \<open>The example state with two rolls of silk and one of wool.\<close>

definition rolls_db :: db where
  "rolls_db = stock_db\<lparr>rolls :=
     [\<lparr>roll_id = 1, roll_material_id = 1, roll_quantity = 10, roll_date_added = 3\<rparr>,
      \<lparr>roll_id = 2, roll_material_id = 2, roll_quantity = 5, roll_date_added = 3\<rparr>,
      \<lparr>roll_id = 3, roll_material_id = 1, roll_quantity = 20, roll_date_added = 4\<rparr>]\<rparr>"

definition linen_req :: material_req where
  "linen_req = \<lparr>mr_name = ''linen'', mr_type = ''enli'', mr_colour = None,
                mr_supplier = Some ''acme''\<rparr>"

text \<open>The example state after linen was registered at time 1.\<close>

definition linen_db :: db where
  "linen_db = stock_db\<lparr>materials := [silk, wool,
                  \<lparr>material_id = 3, material_name = ''linen'', material_quantity = 0,
                    material_type = ''enli'', material_colour = None,
                    material_supplier = Some ''acme'', total_quantity = 0\<rparr>],
               logs := [\<lparr>log_id = 1, action_type = ''ADD'', table_name = ''materials'',
                         record_id = 3, changes = material_req_json linen_req,
                         log_timestamp = 1\<rparr>]\<rparr>"


definition bob_req :: customer_req where
  "bob_req = \<lparr>cr_name = ''bob'', cr_contact = ''556''\<rparr>"

definition rename_req :: customer_edit where
  "rename_req = \<lparr>ce_name = Some ''anna'', ce_contact = None\<rparr>"

text \<open>The example state with the rolls above and the sale of 30 units of silk.\<close>

definition sold_rolls_db :: db where
  "sold_rolls_db = sold_db\<lparr>rolls := rolls rolls_db\<rparr>"

definition sale_req_of :: "nat \<Rightarrow> nat option \<Rightarrow> real \<Rightarrow> real option \<Rightarrow> sale_req" where
  "sale_req_of m c q due =
     \<lparr>sr_material_id = m, sr_customer_id = c, sr_quantity_sold = q, sr_price = 10,
      sr_amount_due = due\<rparr>"








definition commit_down :: "nat \<Rightarrow> env" where
  "commit_down t = \<lparr>now = t, commit_ok = False, log_commit_ok = True\<rparr>"


section \<open>Rounding to a double\<close>

lemma round_half_even_of_int: "round_half_even (of_int n) = n"
  by (simp add: round_half_even_def)

lemma exponent_of_int:
  assumes "n \<noteq> 0" and "\<bar>n\<bar> < 2 ^ 53"
  shows "0 \<le> \<lfloor>log 2 \<bar>real_of_int n\<bar>\<rfloor>" and "\<lfloor>log 2 \<bar>real_of_int n\<bar>\<rfloor> \<le> 52"
proof -
  from assms(1) have "1 \<le> \<bar>n\<bar>" by linarith
  then have "real_of_int 1 \<le> real_of_int \<bar>n\<bar>" by (simp only: of_int_le_iff)
  then have pos: "1 \<le> \<bar>real_of_int n\<bar>" by simp
  then have "0 \<le> log 2 \<bar>real_of_int n\<bar>" by simp
  then show "0 \<le> \<lfloor>log 2 \<bar>real_of_int n\<bar>\<rfloor>" by simp
  from assms(2) have "\<bar>real_of_int n\<bar> < 2 ^ 53"
    by (metis of_int_abs of_int_less_numeral_power_cancel_iff)
  then have "\<bar>real_of_int n\<bar> < 2 powr 53" by simp
  with pos have "log 2 \<bar>real_of_int n\<bar> < 53"
    by (subst log_less_iff) simp_all
  then show "\<lfloor>log 2 \<bar>real_of_int n\<bar>\<rfloor> \<le> 52"
    by (simp add: floor_le_iff)
qed

text \<open>Every integer of magnitude below \<open>2 ^ 53\<close> is a double.\<close>

lemma binary64_of_int:
  assumes "\<bar>n\<bar> < 2 ^ 53"
  shows "binary64 (of_int n) = of_int n"
proof (cases "n = 0")
  case True
  then show ?thesis by (simp add: binary64_def)
next
  case False
  define ex where "ex = \<lfloor>log 2 \<bar>real_of_int n\<bar>\<rfloor>"
  from exponent_of_int [OF False assms] have ex: "0 \<le> ex" "ex \<le> 52"
    by (simp_all add: ex_def)
  define k where "k = nat (52 - ex)"
  have "(2::real) powr real_of_int (ex - 52)
          = (if 0 \<le> ex - 52 then 2 ^ nat (ex - 52) else inverse (2 ^ nat (- (ex - 52))))"
    by (rule powr_real_of_int) simp
  moreover have "nat (- (ex - 52)) = k" by (simp add: k_def)
  moreover have "0 \<le> ex - 52 \<Longrightarrow> nat (ex - 52) = 0 \<and> k = 0"
    using ex by (simp add: k_def)
  ultimately have ulp: "(2::real) powr real_of_int (ex - 52) = 1 / 2 ^ k"
    by (auto simp: inverse_eq_divide)
  have q: "real_of_int n / (1 / 2 ^ k) = of_int (n * 2 ^ k)" by simp
  have "binary64 (of_int n) = of_int (round_half_even (of_int n / (1 / 2 ^ k))) * (1 / 2 ^ k)"
    using False ex ulp by (simp add: binary64_def Let_def ex_def [symmetric] max_def)
  also have "\<dots> = of_int (n * 2 ^ k) * (1 / 2 ^ k)"
    unfolding q round_half_even_of_int ..
  also have "\<dots> = of_int n" by simp
  finally show ?thesis .
qed

lemma binary64_numeral:
  "numeral k < (9007199254740992 :: int) \<Longrightarrow> binary64 (numeral k) = numeral k"
  "numeral k < (9007199254740992 :: int) \<Longrightarrow> binary64 (- numeral k) = - numeral k"
  "binary64 0 = 0" "binary64 1 = 1"
  using binary64_of_int [of "numeral k"] binary64_of_int [of "- numeral k"]
        binary64_of_int [of 0] binary64_of_int [of 1]
  by simp_all









section \<open>Facts about the shared tail\<close>

lemma commit_and_log_success:
  "commit_and_log e d d' action tbl rid ch r = (Inr r', d'') \<Longrightarrow>
     commit_ok e \<and> log_commit_ok e \<and> r' = r \<and>
     d'' = d'\<lparr>logs := logs d' @
                 [\<lparr>log_id = next_id (map log_id (logs d')), action_type = action,
                   table_name = tbl, record_id = rid, changes = ch,
                   log_timestamp = now e\<rparr>]\<rparr>"
  by (auto simp: commit_and_log_def log_activity_def Let_def split: if_splits sum.splits)

lemma commit_and_log_all_ok:
  "commit_ok e \<Longrightarrow> log_commit_ok e \<Longrightarrow>
   commit_and_log e d d' action tbl rid ch r =
     (Inr r, d'\<lparr>logs := logs d' @
                  [\<lparr>log_id = next_id (map log_id (logs d')), action_type = action,
                    table_name = tbl, record_id = rid, changes = ch,
                    log_timestamp = now e\<rparr>]\<rparr>)"
  by (simp add: commit_and_log_def log_activity_def Let_def)

section \<open>Primary keys and row updates\<close>




lemma find_snoc:
  "find P (xs @ [y]) = (case find P xs of None \<Rightarrow> (if P y then Some y else None) | Some x \<Rightarrow> Some x)"
  by (induction xs) auto





lemma find_id_material: "find (\<lambda>m. material_id m = i) ms = Some m \<Longrightarrow> material_id m = i"
  by (auto simp: find_Some_iff)


section \<open>What a successful sale route did\<close>






section \<open>The life of a sale and the stock counter\<close>







section \<open>Recording a sale against insufficient stock\<close>

text \<open>
  Claim C2. When the material exists and the requested quantity exceeds its
  \<^verbatim>\<open>total_quantity\<close>, \<^verbatim>\<open>add_sale\<close> answers "Insufficient stock" and the stored state is
  the one it started from: the counter, every other row and the sales table are unchanged,
  whatever the storage engine would have done with a commit.
\<close>

theorem add_sale_insufficient_stock:
  "get_material d (sr_material_id data) = Some m \<Longrightarrow>
   total_quantity m < sr_quantity_sold data \<Longrightarrow>
   add_sale e data d = (Inl InsufficientStock, d)"
  by (simp add: add_sale_def Let_def)

theorem add_sale_insufficient_stock_witness:
  "add_sale (all_ok 5) (sale_req_of 1 None 130 None) stock_db = (Inl InsufficientStock, stock_db)"
  by (rule add_sale_insufficient_stock [where m = silk])
     (simp_all add: sale_req_of_def get_material_def stock_db_def silk_def wool_def)

section \<open>Editing a sale\<close>




section \<open>Adding rolls\<close>








section \<open>Deleting a material\<close>

lemma find_filter_out: "find (\<lambda>x. key x = i) (filter (\<lambda>x. key x \<noteq> i) xs) = None"
  by (simp add: find_None_iff)

text \<open>
  Claim C8, as the code has it. For an id with no material row, \<^verbatim>\<open>delete_material\<close>
  answers "Material not found" and leaves the stored state as it was. For a material that a
  sale references it fails with the integrity error and leaves the stored state as it was.
  For a material that no sale references, when both commits succeed, it succeeds;
  afterwards the material row is gone, the rolls table is the old one without the rolls of
  that material (so no roll references it), and one DELETE entry for table \<^verbatim>\<open>materials\<close>
  and that id was appended whose payload is the material's name.
\<close>

theorem delete_material_unreferenced:
  "(get_material d mid = None \<longrightarrow> delete_material e mid d = (Inl MaterialNotFound, d))
   \<and> (get_material d mid = Some m \<and> list_ex (\<lambda>s. sale_material_id s = mid) (sales d) \<longrightarrow>
        delete_material e mid d = (Inl IntegrityError, d))
   \<and> (get_material d mid = Some m \<and> \<not> list_ex (\<lambda>s. sale_material_id s = mid) (sales d)
        \<and> commit_ok e \<and> log_commit_ok e \<longrightarrow>
        fst (delete_material e mid d) = Inr Done
      \<and> get_material (snd (delete_material e mid d)) mid = None
      \<and> materials (snd (delete_material e mid d))
          = filter (\<lambda>x. material_id x \<noteq> mid) (materials d)
      \<and> rolls (snd (delete_material e mid d))
          = filter (\<lambda>r. roll_material_id r \<noteq> mid) (rolls d)
      \<and> filter (\<lambda>r. roll_material_id r = mid) (rolls (snd (delete_material e mid d))) = []
      \<and> logs (snd (delete_material e mid d))
          = logs d @ [\<lparr>log_id = next_id (map log_id (logs d)), action_type = ''DELETE'',
                        table_name = ''materials'', record_id = mid,
                        changes = JDict [(''deleted_material'', JStr (material_name m))],
                        log_timestamp = now e\<rparr>])"
proof (intro conjI impI)
  assume "get_material d mid = None"
  then show "delete_material e mid d = (Inl MaterialNotFound, d)"
    by (simp add: delete_material_def)
next
  assume h: "get_material d mid = Some m \<and> list_ex (\<lambda>s. sale_material_id s = mid) (sales d)"
  then have mid: "material_id m = mid"
    by (auto simp: get_material_def dest: find_id_material)
  with h show "delete_material e mid d = (Inl IntegrityError, d)"
    by (simp add: delete_material_def)
next
  assume h: "get_material d mid = Some m \<and> \<not> list_ex (\<lambda>s. sale_material_id s = mid) (sales d)
               \<and> commit_ok e \<and> log_commit_ok e"
  then have mid: "material_id m = mid"
    by (auto simp: get_material_def dest: find_id_material)
  let ?d' = "d\<lparr>rolls := filter (\<lambda>r. roll_material_id r \<noteq> mid) (rolls d),
               materials := filter (\<lambda>x. material_id x \<noteq> mid) (materials d),
               logs := logs d @ [\<lparr>log_id = next_id (map log_id (logs d)), action_type = ''DELETE'',
                        table_name = ''materials'', record_id = mid,
                        changes = JDict [(''deleted_material'', JStr (material_name m))],
                        log_timestamp = now e\<rparr>]\<rparr>"
  have run: "delete_material e mid d = (Inr Done, ?d')"
    using h mid by (simp add: delete_material_def Let_def commit_and_log_all_ok)
  show "fst (delete_material e mid d) = Inr Done" by (simp add: run)
  show "get_material (snd (delete_material e mid d)) mid = None"
    by (simp add: run get_material_def find_filter_out)
  show "materials (snd (delete_material e mid d))
          = filter (\<lambda>x. material_id x \<noteq> mid) (materials d)" by (simp add: run)
  show "rolls (snd (delete_material e mid d))
          = filter (\<lambda>r. roll_material_id r \<noteq> mid) (rolls d)" by (simp add: run)
  show "filter (\<lambda>r. roll_material_id r = mid) (rolls (snd (delete_material e mid d))) = []"
    by (simp add: run filter_empty_conv)
  show "logs (snd (delete_material e mid d))
          = logs d @ [\<lparr>log_id = next_id (map log_id (logs d)), action_type = ''DELETE'',
                        table_name = ''materials'', record_id = mid,
                        changes = JDict [(''deleted_material'', JStr (material_name m))],
                        log_timestamp = now e\<rparr>]" by (simp add: run)
qed

text \<open>
  Claim C8 as stated fails: silk has two rolls and is referenced by one sale; deleting it
  with both commits accepted ends in the integrity error, and silk and its rolls are still
  stored.
\<close>

theorem delete_material_with_sale_fails:
  "get_material sold_rolls_db 1 = Some (silk\<lparr>total_quantity := 70\<rparr>)
   \<and> map sale_material_id (sales sold_rolls_db) = [1]
   \<and> map roll_material_id (rolls sold_rolls_db) = [1, 2, 1]
   \<and> delete_material (all_ok 8) 1 sold_rolls_db = (Inl IntegrityError, sold_rolls_db)"
  by (simp add: delete_material_def get_material_def sold_rolls_db_def sold_db_def
        rolls_db_def stock_db_def sale1_def silk_def wool_def)

lemma rolls_db_materials:
  "get_material rolls_db 9 = None"
  "get_material rolls_db 1 = Some silk
   \<and> \<not> list_ex (\<lambda>s. sale_material_id s = 1) (sales rolls_db)
   \<and> commit_ok (all_ok 8) \<and> log_commit_ok (all_ok 8)"
  "get_material sold_rolls_db 1 = Some (silk\<lparr>total_quantity := 70\<rparr>)
   \<and> list_ex (\<lambda>s. sale_material_id s = 1) (sales sold_rolls_db)"
  by (simp_all add: get_material_def sold_rolls_db_def sold_db_def rolls_db_def stock_db_def
        sale1_def silk_def wool_def all_ok_def)

theorem delete_material_unreferenced_witness:
  "delete_material (all_ok 8) 9 rolls_db = (Inl MaterialNotFound, rolls_db)
   \<and> delete_material (commit_down 8) 1 sold_rolls_db = (Inl IntegrityError, sold_rolls_db)
   \<and> fst (delete_material (all_ok 8) 1 rolls_db) = Inr Done
   \<and> materials (snd (delete_material (all_ok 8) 1 rolls_db)) = [wool]
   \<and> rolls (snd (delete_material (all_ok 8) 1 rolls_db))
       = [\<lparr>roll_id = 2, roll_material_id = 2, roll_quantity = 5, roll_date_added = 3\<rparr>]
   \<and> logs (snd (delete_material (all_ok 8) 1 rolls_db))
       = [\<lparr>log_id = 1, action_type = ''DELETE'', table_name = ''materials'', record_id = 1,
           changes = JDict [(''deleted_material'', JStr ''silk'')], log_timestamp = 8\<rparr>]"
proof -
  note c9 = delete_material_unreferenced
              [where d = rolls_db and mid = 9 and e = "all_ok 8" and m = silk]
  note cs = delete_material_unreferenced
              [where d = sold_rolls_db and mid = 1 and e = "commit_down 8"
                 and m = "silk\<lparr>total_quantity := 70\<rparr>"]
  note c1 = delete_material_unreferenced
              [where d = rolls_db and mid = 1 and e = "all_ok 8" and m = silk]
  from c9 rolls_db_materials(1)
  have a: "delete_material (all_ok 8) 9 rolls_db = (Inl MaterialNotFound, rolls_db)" by blast
  from cs rolls_db_materials(3)
  have s: "delete_material (commit_down 8) 1 sold_rolls_db = (Inl IntegrityError, sold_rolls_db)"
    by blast
  from c1 rolls_db_materials(2)
  have b: "fst (delete_material (all_ok 8) 1 rolls_db) = Inr Done"
    and c: "materials (snd (delete_material (all_ok 8) 1 rolls_db))
              = filter (\<lambda>x. material_id x \<noteq> 1) (materials rolls_db)"
    and d: "rolls (snd (delete_material (all_ok 8) 1 rolls_db))
              = filter (\<lambda>r. roll_material_id r \<noteq> 1) (rolls rolls_db)"
    and e: "logs (snd (delete_material (all_ok 8) 1 rolls_db))
              = logs rolls_db @ [\<lparr>log_id = next_id (map log_id (logs rolls_db)),
                        action_type = ''DELETE'', table_name = ''materials'', record_id = 1,
                        changes = JDict [(''deleted_material'', JStr (material_name silk))],
                        log_timestamp = now (all_ok 8)\<rparr>]"
    by blast+
  show ?thesis
    unfolding a s b c d e
    by (simp add: rolls_db_def stock_db_def silk_def wool_def next_id_def all_ok_def)
qed

section \<open>Registering a material twice\<close>

lemma add_material_success:
  assumes "add_material e data d = (Inr r, d')"
  shows "find (\<lambda>m. material_name m = mr_name data \<and> material_type m = mr_type data
                     \<and> material_supplier m = mr_supplier data) (materials d) = None
       \<and> commit_ok e \<and> log_commit_ok e
       \<and> r = Created (next_id (map material_id (materials d)))
       \<and> d' = d\<lparr>materials := materials d @
                   [\<lparr>material_id = next_id (map material_id (materials d)),
                     material_name = mr_name data, material_quantity = 0,
                     material_type = mr_type data, material_colour = mr_colour data,
                     material_supplier = mr_supplier data, total_quantity = 0\<rparr>],
                 logs := logs d @
                   [\<lparr>log_id = next_id (map log_id (logs d)), action_type = ''ADD'',
                     table_name = ''materials'',
                     record_id = next_id (map material_id (materials d)),
                     changes = material_req_json data, log_timestamp = now e\<rparr>]\<rparr>"
  using assms
  by (auto simp: add_material_def Let_def split: option.splits dest!: commit_and_log_success)

lemma filter_none: "find P xs = None \<Longrightarrow> filter P xs = []"
  by (auto simp: find_None_iff filter_empty_conv)

text \<open>
  Claim C4. When a first \<^verbatim>\<open>add_material\<close> with a (name, type, supplier) tuple succeeds, it
  appended one material with that tuple and \<^verbatim>\<open>total_quantity\<close> 0 and logged one ADD entry
  for it; a second call with the same request on the resulting state answers "Material
  already exists" and leaves that state as it is, so exactly one stored material has the
  tuple.
\<close>

theorem add_material_twice:
  assumes "add_material e1 data d = (Inr r, d1)"
  shows "add_material e2 data d1 = (Inl DuplicateMaterial, d1)
       \<and> length (filter (\<lambda>m. material_name m = mr_name data \<and> material_type m = mr_type data
                              \<and> material_supplier m = mr_supplier data) (materials d1)) = 1
       \<and> materials d1 = materials d @
            [\<lparr>material_id = next_id (map material_id (materials d)),
              material_name = mr_name data, material_quantity = 0,
              material_type = mr_type data, material_colour = mr_colour data,
              material_supplier = mr_supplier data, total_quantity = 0\<rparr>]
       \<and> logs d1 = logs d @
            [\<lparr>log_id = next_id (map log_id (logs d)), action_type = ''ADD'',
              table_name = ''materials'',
              record_id = next_id (map material_id (materials d)),
              changes = material_req_json data, log_timestamp = now e1\<rparr>]"
proof -
  let ?P = "\<lambda>m. material_name m = mr_name data \<and> material_type m = mr_type data
                 \<and> material_supplier m = mr_supplier data"
  let ?m = "\<lparr>material_id = next_id (map material_id (materials d)),
              material_name = mr_name data, material_quantity = 0,
              material_type = mr_type data, material_colour = mr_colour data,
              material_supplier = mr_supplier data, total_quantity = 0\<rparr>"
  from add_material_success [OF assms] have
    none: "find ?P (materials d) = None" and
    ms: "materials d1 = materials d @ [?m]" and
    ls: "logs d1 = logs d @
            [\<lparr>log_id = next_id (map log_id (logs d)), action_type = ''ADD'',
              table_name = ''materials'',
              record_id = next_id (map material_id (materials d)),
              changes = material_req_json data, log_timestamp = now e1\<rparr>]"
    by simp_all
  have found: "find ?P (materials d1) = Some ?m"
    using none by (simp add: ms find_snoc)
  have "add_material e2 data d1 = (Inl DuplicateMaterial, d1)"
    using found by (simp add: add_material_def)
  moreover have "length (filter ?P (materials d1)) = 1"
    using filter_none [OF none] by (simp add: ms)
  ultimately show ?thesis using ms ls by simp
qed

lemma add_material_example:
  "add_material (all_ok 1) linen_req stock_db = (Inr (Created 3), linen_db)"
  by (simp add: add_material_def Let_def commit_and_log_def log_activity_def next_id_def
        all_ok_def linen_req_def linen_db_def stock_db_def silk_def wool_def)

theorem add_material_twice_witness:
  "fst (add_material (all_ok 1) linen_req stock_db) = Inr (Created 3)
   \<and> add_material (all_ok 2) linen_req (snd (add_material (all_ok 1) linen_req stock_db))
       = (Inl DuplicateMaterial, snd (add_material (all_ok 1) linen_req stock_db))
   \<and> map material_name (materials (snd (add_material (all_ok 1) linen_req stock_db)))
       = [''silk'', ''wool'', ''linen'']
   \<and> map total_quantity (materials (snd (add_material (all_ok 1) linen_req stock_db)))
       = [100, 0, 0]"
proof -
  from add_material_twice [OF add_material_example, of "all_ok 2"]
  have a: "add_material (all_ok 2) linen_req linen_db = (Inl DuplicateMaterial, linen_db)"
    by blast
  have b: "map material_name (materials linen_db) = [''silk'', ''wool'', ''linen'']"
    and c: "map total_quantity (materials linen_db) = [100, 0, 0]"
    by (simp_all add: linen_db_def silk_def wool_def)
  show ?thesis
    unfolding add_material_example fst_conv snd_conv by (intro conjI refl a b c)
qed

section \<open>Sales that name an unknown customer\<close>

text \<open>
  Claim C10. When the request names a customer id that no stored customer has, \<^verbatim>\<open>add_sale\<close>
  answers exactly as for the same request without a customer, never with "Customer not
  found"; the materials end as for the walk-in request, no customer row changes, and a
  successful call appended the sale, which keeps the unmatched customer id.
\<close>

theorem add_sale_unknown_customer:
  assumes "sr_customer_id data = Some c" and "get_customer d c = None"
  shows "fst (add_sale e data d) = fst (add_sale e (data\<lparr>sr_customer_id := None\<rparr>) d)
       \<and> fst (add_sale e data d) \<noteq> Inl CustomerNotFound
       \<and> materials (snd (add_sale e data d))
           = materials (snd (add_sale e (data\<lparr>sr_customer_id := None\<rparr>) d))
       \<and> customers (snd (add_sale e data d)) = customers d
       \<and> (fst (add_sale e data d) = Inr Done \<longrightarrow>
            sales (snd (add_sale e data d)) = sales d @
              [\<lparr>sale_id = next_id (map sale_id (sales d)),
                sale_material_id = sr_material_id data, sale_customer_id = Some c,
                quantity_sold = sr_quantity_sold data, price = sr_price data,
                sale_date = now e\<rparr>])"
  using assms
  by (auto simp: add_sale_def Let_def commit_and_log_def log_activity_def
           split: option.splits)

lemma no_customer_7: "get_customer stock_db 7 = None"
  by (simp add: get_customer_def stock_db_def ann_def)

theorem add_sale_unknown_customer_witness:
  "fst (add_sale (all_ok 5) (sale_req_of 1 (Some 7) 30 (Some 300)) stock_db) = Inr Done
   \<and> fst (add_sale (all_ok 5) (sale_req_of 1 None 30 (Some 300)) stock_db) = Inr Done
   \<and> stock_of (snd (add_sale (all_ok 5) (sale_req_of 1 (Some 7) 30 (Some 300)) stock_db)) 1
       = Some 70
   \<and> customers (snd (add_sale (all_ok 5) (sale_req_of 1 (Some 7) 30 (Some 300)) stock_db))
       = [ann]
   \<and> map sale_customer_id
       (sales (snd (add_sale (all_ok 5) (sale_req_of 1 (Some 7) 30 (Some 300)) stock_db)))
       = [Some 7]"
proof -
  let ?req = "sale_req_of 1 (Some 7) 30 (Some 300)"
  have id: "sr_customer_id ?req = Some 7" by (simp add: sale_req_of_def)
  have walk: "?req\<lparr>sr_customer_id := None\<rparr> = sale_req_of 1 None 30 (Some 300)"
    by (simp add: sale_req_of_def)
  have run: "fst (add_sale (all_ok 5) (sale_req_of 1 None 30 (Some 300)) stock_db) = Inr Done"
    and ms: "stock_of (snd (add_sale (all_ok 5) (sale_req_of 1 None 30 (Some 300)) stock_db)) 1
               = Some 70"
    by (simp_all add: sale_req_of_def add_sale_def Let_def commit_and_log_def log_activity_def
          get_material_def update_material_def stock_of_def all_ok_def stock_db_def
          silk_def wool_def binary64_numeral)
  note t = add_sale_unknown_customer [OF id no_customer_7, of "all_ok 5", unfolded walk]
  from t run have a: "fst (add_sale (all_ok 5) ?req stock_db) = Inr Done" by simp
  from t have m: "materials (snd (add_sale (all_ok 5) ?req stock_db))
      = materials (snd (add_sale (all_ok 5) (sale_req_of 1 None 30 (Some 300)) stock_db))"
    by blast
  from m ms have b: "stock_of (snd (add_sale (all_ok 5) ?req stock_db)) 1 = Some 70"
    by (simp add: stock_of_def get_material_def)
  from t have c: "customers (snd (add_sale (all_ok 5) ?req stock_db)) = [ann]"
    by (simp add: stock_db_def)
  from t a have "sales (snd (add_sale (all_ok 5) ?req stock_db)) = sales stock_db @
              [\<lparr>sale_id = next_id (map sale_id (sales stock_db)),
                sale_material_id = sr_material_id ?req, sale_customer_id = Some 7,
                quantity_sold = sr_quantity_sold ?req, price = sr_price ?req,
                sale_date = now (all_ok 5)\<rparr>]" by blast
  then have d: "map sale_customer_id (sales (snd (add_sale (all_ok 5) ?req stock_db)))
                  = [Some 7]"
    by (simp add: stock_db_def)
  from a run b c d show ?thesis by simp
qed

section \<open>Customer debt\<close>

lemma find_map_update:
  assumes "\<And>x. key (f x) = key x"
  shows "find (\<lambda>x. key x = i) (map (\<lambda>x. if key x = j then f x else x) xs) =
           (if i = j then map_option f (find (\<lambda>x. key x = i) xs)
            else find (\<lambda>x. key x = i) xs)"
  using assms by (induction xs) auto

lemma find_filter_other:
  "find (\<lambda>x. key x = i) (filter (\<lambda>x. key x \<noteq> j) xs) =
     (if i = j then None else find (\<lambda>x. key x = i) xs)"
  by (induction xs) auto

lemma find_key: "find (\<lambda>x. key x = i) xs = Some y \<Longrightarrow> key y = i"
  by (auto simp: find_Some_iff)

lemma debt_of_same: "customers d' = customers d \<Longrightarrow> debt_of d' c = debt_of d c"
  by (simp add: debt_of_def get_customer_def)

lemma commit_and_log_tables:
  assumes "commit_and_log e d d1 action tbl rid ch r = (res, d')"
  shows "d' = d \<or> (commit_ok e \<and> materials d' = materials d1 \<and> rolls d' = rolls d1
                   \<and> customers d' = customers d1 \<and> sales d' = sales d1)"
  using assms
  by (auto simp: commit_and_log_def log_activity_def Let_def split: if_splits sum.splits)

lemma stock_routes_customers:
  "customers (snd (add_material e mdata d)) = customers d"
  "customers (snd (add_rolls e rdata d)) = customers d"
  "customers (snd (delete_material e i d)) = customers d"
  "customers (snd (delete_roll e i d)) = customers d"
  "customers (snd (update_roll e i q d)) = customers d"
  "customers (snd (edit_sale e i sdata d)) = customers d"
  "customers (snd (delete_sale e i d)) = customers d"
  by (auto simp: add_material_def add_rolls_def delete_material_def delete_roll_def
        update_roll_def edit_sale_def delete_sale_def Let_def commit_and_log_def
        log_activity_def split: option.splits)


lemma debt_of_update_customer:
  assumes "customers d' = update_customer j f (customers d)"
      and "\<And>x. customer_id (f x) = customer_id x"
  shows "debt_of d' c = (if c = j then map_option (\<lambda>x. debt (f x)) (get_customer d c)
                         else debt_of d c)"
  unfolding debt_of_def get_customer_def assms(1) update_customer_def
  by (simp add: find_map_update [where key = customer_id and f = f, OF assms(2)]
        option.map_comp comp_def)

lemma commit_and_log_customers:
  "customers (snd (commit_and_log e d d1 action tbl rid ch r)) =
     (if commit_ok e then customers d1 else customers d)"
  by (simp add: commit_and_log_def log_activity_def Let_def)

lemma edit_customer_debt: "debt_of (snd (edit_customer e i data d)) c = debt_of d c"
proof (cases "get_customer d i")
  case None
  then show ?thesis by (simp add: edit_customer_def)
next
  case (Some cust)
  let ?f = "\<lambda>x. x\<lparr>customer_name := (case ce_name data of None \<Rightarrow> customer_name cust | Some n \<Rightarrow> n),
                    customer_contact := (case ce_contact data of None \<Rightarrow> customer_contact cust
                                                              | Some k \<Rightarrow> k)\<rparr>"
  let ?d' = "snd (edit_customer e i data d)"
  show ?thesis
  proof (cases "commit_ok e")
    case False
    with Some have "customers ?d' = customers d"
      by (simp add: edit_customer_def Let_def commit_and_log_customers)
    then show ?thesis by (rule debt_of_same)
  next
    case True
    with Some have cs: "customers ?d' = update_customer i ?f (customers d)"
      by (simp add: edit_customer_def Let_def commit_and_log_customers)
    have pres: "\<And>x. customer_id (?f x) = customer_id x" by simp
    note upd = debt_of_update_customer [where f = ?f, OF cs pres, of c]
    have eq: "map_option (\<lambda>x. debt (?f x)) (get_customer d c) = debt_of d c"
      by (simp add: debt_of_def)
    show ?thesis
    proof (cases "c = i")
      case True
      with upd have "debt_of ?d' c = map_option (\<lambda>x. debt (?f x)) (get_customer d c)"
        by simp
      with eq show ?thesis by simp
    next
      case False
      with upd show ?thesis by simp
    qed
  qed
qed

lemma delete_customer_debt:
  "debt_of (snd (delete_customer e i d)) c = debt_of d c
   \<or> (i = c \<and> debt_of (snd (delete_customer e i d)) c = None)"
proof (cases "get_customer d i")
  case None
  then show ?thesis by (simp add: delete_customer_def)
next
  case (Some cust)
  then have id: "customer_id cust = i"
    unfolding get_customer_def by (rule find_key)
  let ?d' = "snd (delete_customer e i d)"
  show ?thesis
  proof (cases "commit_ok e")
    case False
    with Some have "customers ?d' = customers d"
      by (simp add: delete_customer_def Let_def commit_and_log_customers)
    then show ?thesis by (intro disjI1 debt_of_same)
  next
    case True
    with Some id have "customers ?d' = filter (\<lambda>x. customer_id x \<noteq> i) (customers d)"
      by (simp add: delete_customer_def Let_def commit_and_log_customers)
    then show ?thesis
      by (simp add: debt_of_def get_customer_def find_filter_other)
  qed
qed

lemma add_customer_debt:
  "debt_of (snd (add_customer e data d)) c = debt_of d c
   \<or> (debt_of d c = None \<and> debt_of (snd (add_customer e data d)) c = Some 0)"
proof (cases "commit_ok e")
  case False
  then have "customers (snd (add_customer e data d)) = customers d"
    by (simp add: add_customer_def Let_def commit_and_log_customers)
  then show ?thesis by (intro disjI1 debt_of_same)
next
  case True
  let ?new = "\<lparr>customer_id = next_id (map customer_id (customers d)),
               customer_name = cr_name data, customer_contact = cr_contact data,
               debt = 0, customer_location = None\<rparr>"
  from True have "customers (snd (add_customer e data d)) = customers d @ [?new]"
    by (simp add: add_customer_def Let_def commit_and_log_customers)
  then show ?thesis
    by (cases "find (\<lambda>x. customer_id x = c) (customers d)")
       (simp_all add: debt_of_def get_customer_def find_snoc)
qed

lemma add_sale_customers:
  "customers (snd (add_sale e data d)) = customers d
   \<or> (\<exists>c cust due. sr_customer_id data = Some c \<and> get_customer d c = Some cust
         \<and> sr_amount_due data = Some due
         \<and> customers (snd (add_sale e data d))
             = update_customer c (\<lambda>x. x\<lparr>debt := binary64 (debt x + due)\<rparr>) (customers d))"
proof (cases "customers (snd (add_sale e data d)) = customers d")
  case True
  then show ?thesis by simp
next
  case False
  then show ?thesis
    by (auto simp: add_sale_def Let_def commit_and_log_def log_activity_def get_customer_def
          split: option.splits if_splits dest: find_key)
qed

lemma add_sale_debt:
  "debt_of (snd (add_sale e data d)) c = debt_of d c
   \<or> (\<exists>due x. sr_customer_id data = Some c \<and> sr_amount_due data = Some due
         \<and> debt_of d c = Some x \<and> debt_of (snd (add_sale e data d)) c = Some (binary64 (x + due)))"
proof -
  from add_sale_customers [of e data d] show ?thesis
  proof
    assume "customers (snd (add_sale e data d)) = customers d"
    then show ?thesis by (intro disjI1 debt_of_same)
  next
    assume "\<exists>c cust due. sr_customer_id data = Some c \<and> get_customer d c = Some cust
         \<and> sr_amount_due data = Some due
         \<and> customers (snd (add_sale e data d))
             = update_customer c (\<lambda>x. x\<lparr>debt := binary64 (debt x + due)\<rparr>) (customers d)"
    then obtain j cust due where
      h: "sr_customer_id data = Some j" "get_customer d j = Some cust"
         "sr_amount_due data = Some due"
         "customers (snd (add_sale e data d))
             = update_customer j (\<lambda>x. x\<lparr>debt := binary64 (debt x + due)\<rparr>) (customers d)"
      by blast
    have pres: "\<And>x. customer_id (x\<lparr>debt := binary64 (debt x + due)\<rparr>) = customer_id x" by simp
    note upd = debt_of_update_customer
                 [where f = "\<lambda>x. x\<lparr>debt := binary64 (debt x + due)\<rparr>", OF h(4) pres, of c]
    show ?thesis
    proof (cases "c = j")
      case False
      with upd show ?thesis by simp
    next
      case True
      with upd h(1-3) show ?thesis by (simp add: debt_of_def)
    qed
  qed
qed

lemma add_sale_debt_applied:
  assumes "fst (add_sale e data d) = Inr Done" and "sr_customer_id data = Some c"
      and "sr_amount_due data = Some due" and "debt_of d c = Some x"
  shows "debt_of (snd (add_sale e data d)) c = Some (binary64 (x + due))"
proof -
  from assms(4) obtain cust where cust: "get_customer d c = Some cust" "debt cust = x"
    by (auto simp: debt_of_def)
  then have id: "customer_id cust = c"
    unfolding get_customer_def by (auto dest: find_key)
  have "customers (snd (add_sale e data d))
          = update_customer c (\<lambda>x. x\<lparr>debt := binary64 (debt x + due)\<rparr>) (customers d)"
    using assms(1-3) cust id
    by (auto simp: add_sale_def Let_def commit_and_log_def log_activity_def
          split: option.splits if_splits)
  then have "debt_of (snd (add_sale e data d)) c
               = map_option (\<lambda>x. debt (x\<lparr>debt := binary64 (debt x + due)\<rparr>)) (get_customer d c)"
    by (simp add: debt_of_update_customer [where f = "\<lambda>x. x\<lparr>debt := binary64 (debt x + due)\<rparr>"])
  with cust show ?thesis by simp
qed

text \<open>
  Claim C9. Whatever command runs, a customer that did not exist before either still does
  not exist or was just created by \<^verbatim>\<open>add_customer\<close> with debt 0; an existing customer's debt
  is unchanged, unless the command deleted that customer or was an \<^verbatim>\<open>add_sale\<close> naming
  that customer with an \<^verbatim>\<open>amount_due\<close>, which was then added, in the arithmetic of the
  column. \<^verbatim>\<open>edit_customer\<close> never changes a debt, and a successful \<^verbatim>\<open>add_sale\<close> naming an
  existing customer with an \<^verbatim>\<open>amount_due\<close> adds that amount.
\<close>

theorem debt_changed_only_by_add_sale:
  assumes "exec e cmd d = (r, d')"
  shows "(debt_of d c = None \<longrightarrow>
            debt_of d' c = None \<or> (is_add_customer cmd \<and> debt_of d' c = Some 0))
       \<and> (debt_of d c = Some x \<longrightarrow>
            debt_of d' c = Some x
          \<or> (cmd = DeleteCustomer c \<and> debt_of d' c = None)
          \<or> (\<exists>due. sale_debit cmd c = Some due \<and> debt_of d' c = Some (binary64 (x + due))))
       \<and> (cmd = EditCustomer i data \<longrightarrow> debt_of d' c = debt_of d c)
       \<and> (r = Inr Done \<and> sale_debit cmd c = Some due \<and> debt_of d c = Some x \<longrightarrow>
            debt_of d' c = Some (binary64 (x + due)))"
proof -
  have d': "d' = snd (exec e cmd d)" and r: "r = fst (exec e cmd d)"
    using assms by simp_all
  show ?thesis
  proof (cases cmd)
    case (AddCustomer cdata)
    with add_customer_debt [of e cdata d c] show ?thesis by (auto simp: d')
  next
    case (EditCustomer j cdata)
    with edit_customer_debt [of e j cdata d c] show ?thesis by (auto simp: d')
  next
    case (DeleteCustomer j)
    with delete_customer_debt [of e j d c] show ?thesis by (auto simp: d')
  next
    case (AddSale sdata)
    with add_sale_debt [of e sdata d c] add_sale_debt_applied [of e sdata d c due x]
    show ?thesis by (auto simp: d' r split: if_splits)
  qed (simp_all add: d' debt_of_def get_customer_def stock_routes_customers)
qed


lemma exec_pair: "exec e cmd d = (fst (exec e cmd d), snd (exec e cmd d))"
  by simp

theorem debt_changed_only_by_add_sale_witness:
  "debt_of stock_db 1 = Some 0
   \<and> debt_of (snd (exec (all_ok 5) (AddSale (sale_req_of 1 (Some 1) 30 (Some 300))) stock_db)) 1
       = Some 300
   \<and> debt_of (snd (exec (all_ok 6) (EditCustomer 1 rename_req) stock_db)) 1 = Some 0
   \<and> debt_of stock_db 2 = None
   \<and> debt_of (snd (exec (all_ok 7) (AddCustomer bob_req) stock_db)) 2 = Some 0"
proof -
  let ?sale = "AddSale (sale_req_of 1 (Some 1) 30 (Some 300))"
  have ann0: "debt_of stock_db 1 = Some 0" and none2: "debt_of stock_db 2 = None"
    by (simp_all add: debt_of_def get_customer_def stock_db_def ann_def)
  have ok: "fst (exec (all_ok 5) ?sale stock_db) = Inr Done"
    by (simp add: sale_req_of_def add_sale_def Let_def commit_and_log_def log_activity_def
          get_material_def get_customer_def all_ok_def stock_db_def silk_def wool_def ann_def)
  have due: "sale_debit ?sale 1 = Some 300" by (simp add: sale_req_of_def)
  from debt_changed_only_by_add_sale
         [where e = "all_ok 5" and cmd = ?sale and d = stock_db and c = 1 and due = 300
            and x = 0, OF exec_pair]
       ok due ann0
  have a: "debt_of (snd (exec (all_ok 5) ?sale stock_db)) 1 = Some 300"
    by (simp add: binary64_numeral)
  from debt_changed_only_by_add_sale
         [where e = "all_ok 6" and cmd = "EditCustomer 1 rename_req" and d = stock_db
            and c = 1 and i = 1 and data = rename_req, OF exec_pair]
       ann0
  have b: "debt_of (snd (exec (all_ok 6) (EditCustomer 1 rename_req) stock_db)) 1 = Some 0"
    by simp
  have new: "debt_of (snd (exec (all_ok 7) (AddCustomer bob_req) stock_db)) 2 \<noteq> None"
    by (simp add: add_customer_def Let_def commit_and_log_def log_activity_def debt_of_def
          get_customer_def next_id_def all_ok_def stock_db_def ann_def bob_req_def)
  from debt_changed_only_by_add_sale
         [where e = "all_ok 7" and cmd = "AddCustomer bob_req" and d = stock_db and c = 2,
          OF exec_pair, THEN conjunct1]
       none2 new
  have c: "debt_of (snd (exec (all_ok 7) (AddCustomer bob_req) stock_db)) 2 = Some 0"
    by auto
  from ann0 a b none2 c show ?thesis by simp
qed

section \<open>The two commits of a request\<close>



lemma now_log_ok: "now (e\<lparr>log_commit_ok := True\<rparr>) = now e"
  by simp


















section \<open>The audit entry of a successful command\<close>



lemma last_entry:
  "logs d' = logs d @ [entry] \<Longrightarrow>
     length (logs d') = Suc (length (logs d)) \<and> take (length (logs d)) (logs d') = logs d
     \<and> last (logs d') = entry"
  by simp











end
